theory Spec2Isabelle
  imports Complex_Main
begin

section \<open>JavaScript values\<close>

text \<open>
  The values that reach \<^verbatim>\<open>src/repositories/user.js\<close>: ids, the fields of
  \<^verbatim>\<open>userData\<close> and the rows of the store. Numbers are integers here (the file does
  no arithmetic on them; \<^verbatim>\<open>NaN\<close> is falsy and defined, like \<open>Num 0\<close>). An object
  is an association list of its own properties, the first binding of a key being the one
  that is read.
\<close>

datatype jsval =
    Undefined
  | Null
  | Bool bool
  | Num int
  | Str string
  | Obj "(string \<times> jsval) list"

text \<open>JavaScript's \<^verbatim>\<open>ToBoolean\<close>: what \<^verbatim>\<open>!v\<close> and \<^verbatim>\<open>v || w\<close> test.\<close>

fun truthy :: "jsval \<Rightarrow> bool" where
  "truthy Undefined = False"
| "truthy Null = False"
| "truthy (Bool b) = b"
| "truthy (Num n) = (n \<noteq> 0)"
| "truthy (Str s) = (s \<noteq> [])"
| "truthy (Obj fs) = True"

text \<open>
  Property access \<^verbatim>\<open>v.k\<close>. A key that an object does not have reads as
  \<^verbatim>\<open>undefined\<close>, and so does a property of a number, boolean or string that its
  prototype does not define (\<^verbatim>\<open>name\<close> and \<^verbatim>\<open>email\<close> are such). On
  \<^verbatim>\<open>undefined\<close> and \<^verbatim>\<open>null\<close> JavaScript raises a TypeError; every access of
  the file to \<^verbatim>\<open>userData\<close> stands behind the guard \<^verbatim>\<open>!userData ||\<close>, so that
  case is never evaluated by the code and the value given to it here is never used.
\<close>

fun get_prop :: "jsval \<Rightarrow> string \<Rightarrow> jsval" where
  "get_prop (Obj fs) k = (case map_of fs k of None \<Rightarrow> Undefined | Some v \<Rightarrow> v)"
| "get_prop v k = Undefined"

text \<open>\<^verbatim>\<open>a || b\<close>\<close>

definition js_or :: "jsval \<Rightarrow> jsval \<Rightarrow> jsval" where
  "js_or a b = (if truthy a then a else b)"

text \<open>\<^verbatim>\<open>xs.join(sep)\<close> on an array of strings.\<close>

fun join :: "string \<Rightarrow> string list \<Rightarrow> string" where
  "join sep [] = []"
| "join sep [x] = x"
| "join sep (x # y # ys) = x @ sep @ join sep (y # ys)"

text \<open>The decimal digits of a non-negative integer, as a template literal prints it.\<close>

function string_of_nat :: "nat \<Rightarrow> string" where
  "string_of_nat n =
     (if n < 10 then [''0123456789'' ! n]
      else string_of_nat (n div 10) @ [''0123456789'' ! (n mod 10)])"
  by pat_completeness auto
termination
  by (relation "measure (\<lambda>n. n)") auto

declare string_of_nat.simps [simp del]

section \<open>The store, errors and effects\<close>

text \<open>
  A row of the store is an object; the result of \<^verbatim>\<open>pool.query\<close> is an object whose
  \<^verbatim>\<open>rows\<close> is the array of rows (the only field the file reads).
\<close>

type_synonym row = "(string \<times> jsval) list"

record qresult =
  rows :: "row list"

text \<open>
  What the file can throw: \<^verbatim>\<open>new Error(message)\<close> of its own validation, the
  TypeError of reading \<^verbatim>\<open>.rows\<close> of \<^verbatim>\<open>undefined\<close>, and whatever value
  \<open>'e\<close> the promise of \<^verbatim>\<open>pool.query\<close> was rejected with. The constructor
  \<open>Rejected\<close> is the injection of the pool's values, it stands for no wrapper object.
\<close>

datatype 'e thrown =
    Error string
  | TypeError
  | Rejected 'e

text \<open>
  The effects of the file, in the order they happen: a call of \<^verbatim>\<open>pool.query\<close>, a
  \<^verbatim>\<open>setTimeout\<close> awaited with its delay in milliseconds, a line of
  \<^verbatim>\<open>console.error\<close>. The state threaded through every function is the trace of
  the events so far.
\<close>

datatype 'e event =
    Query string "jsval list"
  | Timeout int
  | ConsoleError string "'e thrown"

type_synonym 'e trace = "'e event list"

text \<open>
  The connection pool is outside the file. Whether a call succeeds may depend on all
  that happened before it, the waiting included, so the pool is a function from the trace
  that ends with the call to its outcome: \<open>Inl\<close> the value the promise is rejected
  with, \<open>Inr\<close> the result it resolves to.
\<close>

type_synonym 'e pool = "'e trace \<Rightarrow> 'e + qresult"

definition pool_query ::
  "'e pool \<Rightarrow> string \<Rightarrow> jsval list \<Rightarrow> 'e trace \<Rightarrow> ('e + qresult) \<times> 'e trace" where
  "pool_query pool query params t =
     (let t' = t @ [Query query params] in (pool t', t'))"

definition setTimeout :: "int \<Rightarrow> 'e trace \<Rightarrow> 'e trace" where
  "setTimeout ms t = t @ [Timeout ms]"

definition console_error :: "string \<Rightarrow> 'e thrown \<Rightarrow> 'e trace \<Rightarrow> 'e trace" where
  "console_error msg error t = t @ [ConsoleError msg error]"

section \<open>queryWithRetry\<close>

text \<open>
  The \<^verbatim>\<open>for\<close> loop of \<^verbatim>\<open>queryWithRetry\<close>, from the counter \<open>i\<close>. A promise
  that resolves returns from the function; one that rejects is rethrown when
  \<^verbatim>\<open>i === maxRetries - 1\<close> and is followed by a wait of \<^verbatim>\<open>1000 * (i + 1)\<close>
  otherwise. When the condition of the loop fails the function ends with no
  \<^verbatim>\<open>return\<close>, which is \<open>Inr None\<close>: the promise resolves to
  \<^verbatim>\<open>undefined\<close>. \<^verbatim>\<open>maxRetries\<close> is any finite number, whole or not; the
  counter \<open>i\<close> takes whole values only, as it starts at 0 and grows by 1. Left out
  are \<^verbatim>\<open>NaN\<close>, with which the condition of the loop is false at once as it is with
  a value that is not positive, and \<^verbatim>\<open>Infinity\<close>, with which the loop does not
  end on a pool that rejects every call.
\<close>

function queryWithRetry_loop ::
  "'e pool \<Rightarrow> string \<Rightarrow> jsval list \<Rightarrow> real \<Rightarrow> int \<Rightarrow> 'e trace
     \<Rightarrow> ('e thrown + qresult option) \<times> 'e trace" where
  "queryWithRetry_loop pool query params maxRetries i t =
     (if of_int i < maxRetries then
        (case pool_query pool query params t of
           (Inr result, t') \<Rightarrow> (Inr (Some result), t')
         | (Inl error, t') \<Rightarrow>
             if of_int i = maxRetries - 1 then (Inl (Rejected error), t')
             else queryWithRetry_loop pool query params maxRetries (i + 1)
                    (setTimeout (1000 * (i + 1)) t'))
      else (Inr None, t))"
  by pat_completeness auto
termination
  by (relation "measure (\<lambda>(pool, query, params, maxRetries, i, t). nat (\<lceil>maxRetries\<rceil> - i))")
    (auto simp: less_ceiling_iff)

declare queryWithRetry_loop.simps [simp del]

text \<open>
  \<^verbatim>\<open>queryWithRetry(query, params, maxRetries = 3)\<close>: an argument left out is
  \<open>None\<close> and takes the default.
\<close>

definition queryWithRetry ::
  "'e pool \<Rightarrow> string \<Rightarrow> jsval list \<Rightarrow> real option \<Rightarrow> 'e trace
     \<Rightarrow> ('e thrown + qresult option) \<times> 'e trace" where
  "queryWithRetry pool query params maxRetries t =
     queryWithRetry_loop pool query params
       (case maxRetries of None \<Rightarrow> 3 | Some m \<Rightarrow> m) 0 t"

section \<open>UserRepository\<close>

text \<open>\<^verbatim>\<open>result.rows\<close>: a TypeError when \<^verbatim>\<open>result\<close> is \<^verbatim>\<open>undefined\<close>.\<close>

definition result_rows :: "qresult option \<Rightarrow> 'e thrown + row list" where
  "result_rows result = (case result of None \<Rightarrow> Inl TypeError | Some r \<Rightarrow> Inr (rows r))"

text \<open>\<^verbatim>\<open>rows[0]\<close>: reading past the end of an array gives \<^verbatim>\<open>undefined\<close>.\<close>

definition first_row :: "row list \<Rightarrow> jsval" where
  "first_row rs = (case rs of [] \<Rightarrow> Undefined | r # _ \<Rightarrow> Obj r)"

text \<open>
  The \<^verbatim>\<open>try { ... } catch (error) { console.error(msg, error); throw error; }\<close>
  around the body of every method: what the body throws is logged and thrown again.
\<close>

definition catch_log ::
  "string \<Rightarrow> ('e thrown + 'a) \<times> 'e trace \<Rightarrow> ('e thrown + 'a) \<times> 'e trace" where
  "catch_log msg r =
     (case r of
        (Inl error, t) \<Rightarrow> (Inl error, console_error msg error t)
      | (Inr v, t) \<Rightarrow> (Inr v, t))"

text \<open>
  The two statements every method shares: \<^verbatim>\<open>const result = await queryWithRetry(query,
  params)\<close>, then a value computed from \<^verbatim>\<open>result.rows\<close>.
\<close>

definition query_rows ::
  "'e pool \<Rightarrow> string \<Rightarrow> jsval list \<Rightarrow> (row list \<Rightarrow> 'a) \<Rightarrow> 'e trace
     \<Rightarrow> ('e thrown + 'a) \<times> 'e trace" where
  "query_rows pool query params ret t =
     (case queryWithRetry pool query params None t of
        (Inl error, t') \<Rightarrow> (Inl error, t')
      | (Inr result, t') \<Rightarrow>
          (case result_rows result of
             Inl error \<Rightarrow> (Inl error, t')
           | Inr rs \<Rightarrow> (Inr (ret rs), t')))"

definition findById :: "'e pool \<Rightarrow> jsval \<Rightarrow> 'e trace \<Rightarrow> ('e thrown + jsval) \<times> 'e trace" where
  "findById pool userId t =
     catch_log ''Error fetching user by ID:''
       (query_rows pool ''SELECT * FROM users WHERE id = $1'' [userId]
          (\<lambda>rs. js_or (first_row rs) Null) t)"

definition findAll :: "'e pool \<Rightarrow> 'e trace \<Rightarrow> ('e thrown + row list) \<times> 'e trace" where
  "findAll pool t =
     catch_log ''Error fetching all users:''
       (query_rows pool ''SELECT * FROM users'' [] (\<lambda>rs. rs) t)"

definition create :: "'e pool \<Rightarrow> jsval \<Rightarrow> 'e trace \<Rightarrow> ('e thrown + jsval) \<times> 'e trace" where
  "create pool userData t =
     (if \<not> truthy userData \<or> \<not> truthy (get_prop userData ''name'')
           \<or> \<not> truthy (get_prop userData ''email'')
      then (Inl (Error ''User data must include name and email''), t)
      else catch_log ''Error creating user:''
             (query_rows pool ''INSERT INTO users (name, email) VALUES ($1, $2) RETURNING *''
                [get_prop userData ''name'', get_prop userData ''email''] first_row t))"

text \<open>
  The query builder inside \<^verbatim>\<open>update\<close>: the arrays \<^verbatim>\<open>updates\<close> and
  \<^verbatim>\<open>values\<close> and the counter \<^verbatim>\<open>paramCount\<close> after the two conditional
  pushes and the push of \<^verbatim>\<open>userId\<close>.
\<close>

definition update_parts :: "jsval \<Rightarrow> jsval \<Rightarrow> string list \<times> jsval list \<times> nat" where
  "update_parts userId userData =
     (let updates = []; values = []; paramCount = 1;
          (updates, values, paramCount) =
            (if get_prop userData ''name'' \<noteq> Undefined
             then (updates @ [''name = $'' @ string_of_nat paramCount],
                   values @ [get_prop userData ''name''], paramCount + 1)
             else (updates, values, paramCount));
          (updates, values, paramCount) =
            (if get_prop userData ''email'' \<noteq> Undefined
             then (updates @ [''email = $'' @ string_of_nat paramCount],
                   values @ [get_prop userData ''email''], paramCount + 1)
             else (updates, values, paramCount));
          values = values @ [userId]
      in (updates, values, paramCount))"

text \<open>The text of the statement and its parameters, as passed to \<^verbatim>\<open>queryWithRetry\<close>.\<close>

definition update_query :: "jsval \<Rightarrow> jsval \<Rightarrow> string \<times> jsval list" where
  "update_query userId userData =
     (case update_parts userId userData of
        (updates, values, paramCount) \<Rightarrow>
          (''UPDATE users SET '' @ join '', '' updates @ '' WHERE id = $''
             @ string_of_nat paramCount @ '' RETURNING *'', values))"

definition update :: "'e pool \<Rightarrow> jsval \<Rightarrow> jsval \<Rightarrow> 'e trace \<Rightarrow> ('e thrown + jsval) \<times> 'e trace" where
  "update pool userId userData t =
     (if \<not> truthy userData
           \<or> (\<not> truthy (get_prop userData ''name'') \<and> \<not> truthy (get_prop userData ''email''))
      then (Inl (Error ''User data must include at least name or email to update''), t)
      else catch_log ''Error updating user:''
             (case update_query userId userData of
                (query, values) \<Rightarrow> query_rows pool query values first_row t))"

definition delete :: "'e pool \<Rightarrow> jsval \<Rightarrow> 'e trace \<Rightarrow> ('e thrown + jsval) \<times> 'e trace" where
  "delete pool userId t =
     catch_log ''Error deleting user:''
       (query_rows pool ''DELETE FROM users WHERE id = $1 RETURNING *'' [userId] first_row t)"

section \<open>Vocabulary of the properties\<close>

text \<open>
  The events of the attempts \<open>i, \<dots>, k - 1\<close> of \<^verbatim>\<open>queryWithRetry\<close> when each of
  them is rejected and none is the last: the call, then the wait that follows it.
\<close>

definition failed_attempts :: "string \<Rightarrow> jsval list \<Rightarrow> int \<Rightarrow> int \<Rightarrow> 'e trace" where
  "failed_attempts query params i k =
     concat (map (\<lambda>j. [Query query params, Timeout (1000 * (j + 1))]) [i..k - 1])"

text \<open>
  The outcome of attempt \<open>k\<close> of a loop that started at attempt \<open>i\<close> on the trace \<open>t\<close>,
  the attempts before \<open>k\<close> having been rejected.
\<close>

definition attempt ::
  "'e pool \<Rightarrow> string \<Rightarrow> jsval list \<Rightarrow> 'e trace \<Rightarrow> int \<Rightarrow> int \<Rightarrow> 'e + qresult" where
  "attempt pool query params t i k =
     pool (t @ failed_attempts query params i k @ [Query query params])"

text \<open>The delays of a trace, in order.\<close>

fun delays :: "'e trace \<Rightarrow> int list" where
  "delays [] = []"
| "delays (Timeout ms # es) = ms # delays es"
| "delays (Query query params # es) = delays es"
| "delays (ConsoleError msg error # es) = delays es"

text \<open>A field that is missing (\<^verbatim>\<open>undefined\<close>, \<^verbatim>\<open>null\<close>) or the empty string.\<close>

definition missing_or_empty :: "jsval \<Rightarrow> bool" where
  "missing_or_empty v = (v = Undefined \<or> v = Null \<or> v = Str [])"

text \<open>The columns among \<^verbatim>\<open>name\<close>, \<^verbatim>\<open>email\<close> whose field is not \<^verbatim>\<open>undefined\<close>.\<close>

definition supplied :: "jsval \<Rightarrow> string list" where
  "supplied userData = filter (\<lambda>c. get_prop userData c \<noteq> Undefined) [''name'', ''email'']"

text \<open>
  Three stores for concrete runs: one that matches no row, one that rejects every call,
  and one that rejects until two waits have passed and then returns a row.
\<close>

definition pool_empty :: "string pool" where
  "pool_empty t = Inr \<lparr>rows = []\<rparr>"

definition pool_down :: "string pool" where
  "pool_down t = Inl ''ECONNREFUSED''"

definition alice :: row where
  "alice = [(''id'', Num 1), (''name'', Str ''Alice''), (''email'', Str ''alice@x.com'')]"

definition pool_flaky :: "string pool" where
  "pool_flaky t = (if length (delays t) < 2 then Inl ''ETIMEDOUT'' else Inr \<lparr>rows = [alice]\<rparr>)"

section \<open>The retry loop\<close>

lemma failed_attempts_empty [simp]: "failed_attempts q ps i i = []"
  by (simp add: failed_attempts_def)

lemma failed_attempts_step:
  "i < k \<Longrightarrow> failed_attempts q ps i k =
     Query q ps # Timeout (1000 * (i + 1)) # failed_attempts q ps (i + 1) k"
  by (simp add: failed_attempts_def upto_rec1)

lemma attempt_step:
  "i < k \<Longrightarrow> attempt pool q ps t i k =
     attempt pool q ps (t @ [Query q ps, Timeout (1000 * (i + 1))]) (i + 1) k"
  by (simp add: attempt_def failed_attempts_step)

lemma loop_exit:
  "\<not> of_int i < n \<Longrightarrow> queryWithRetry_loop pool q ps n i t = (Inr None, t)"
  by (simp add: queryWithRetry_loop.simps)

lemma loop_resolve:
  "of_int i < n \<Longrightarrow> pool (t @ [Query q ps]) = Inr r \<Longrightarrow>
     queryWithRetry_loop pool q ps n i t = (Inr (Some r), t @ [Query q ps])"
  by (subst queryWithRetry_loop.simps) (simp add: pool_query_def)

lemma loop_rethrow:
  "of_int i = n - 1 \<Longrightarrow> pool (t @ [Query q ps]) = Inl e \<Longrightarrow>
     queryWithRetry_loop pool q ps n i t = (Inl (Rejected e), t @ [Query q ps])"
  by (subst queryWithRetry_loop.simps) (simp add: pool_query_def)

lemma loop_retry:
  "of_int i < n \<Longrightarrow> of_int i \<noteq> n - 1 \<Longrightarrow> pool (t @ [Query q ps]) = Inl e \<Longrightarrow>
     queryWithRetry_loop pool q ps n i t =
     queryWithRetry_loop pool q ps n (i + 1) (t @ [Query q ps, Timeout (1000 * (i + 1))])"
  by (subst queryWithRetry_loop.simps) (simp add: pool_query_def setTimeout_def)

text \<open>
  When the attempts before \<open>k\<close> are rejected and attempt \<open>k\<close> resolves or is the last one
  allowed, the loop ends with the outcome of attempt \<open>k\<close> right after that call.
\<close>

lemma loop_last_attempt:
  assumes "i \<le> k" and "of_int k < n"
    and "\<forall>j. i \<le> j \<and> j < k \<longrightarrow> isl (attempt pool q ps t i j)"
    and "isl (attempt pool q ps t i k) \<longrightarrow> of_int k = n - 1"
  shows "queryWithRetry_loop pool q ps n i t =
     (case attempt pool q ps t i k of
        Inl e \<Rightarrow> Inl (Rejected e)
      | Inr r \<Rightarrow> Inr (Some r),
      t @ failed_attempts q ps i k @ [Query q ps])"
  using assms
proof (induction "nat (k - i)" arbitrary: i t)
  case 0
  then have ik: "i = k" by simp
  show ?case
  proof (cases "attempt pool q ps t k k")
    case (Inl e)
    with 0 ik have "of_int k = n - 1" by simp
    with Inl ik show ?thesis
      by (simp add: attempt_def loop_rethrow)
  next
    case (Inr r)
    with 0 ik show ?thesis
      by (simp add: attempt_def loop_resolve)
  qed
next
  case (Suc d)
  then have lt: "i < k" by linarith
  from Suc.prems lt have "isl (attempt pool q ps t i i)" by simp
  then obtain e where e: "pool (t @ [Query q ps]) = Inl e"
    by (auto simp: attempt_def isl_def)
  let ?t = "t @ [Query q ps, Timeout (1000 * (i + 1))]"
  from lt have "(of_int i :: real) + 1 \<le> of_int k" by linarith
  with Suc.prems(2) have "of_int i < n" and "of_int i \<noteq> n - 1" by linarith+
  then have step: "queryWithRetry_loop pool q ps n i t =
      queryWithRetry_loop pool q ps n (i + 1) ?t"
    using e by (rule loop_retry)
  have d: "d = nat (k - (i + 1))" using Suc.hyps(2) by linarith
  have a: "\<forall>j. i + 1 \<le> j \<and> j < k \<longrightarrow> isl (attempt pool q ps ?t (i + 1) j)"
  proof (intro allI impI)
    fix j
    assume j: "i + 1 \<le> j \<and> j < k"
    then have "isl (attempt pool q ps t i j)" using Suc.prems(3) by simp
    moreover from j have "i < j" by simp
    ultimately show "isl (attempt pool q ps ?t (i + 1) j)"
      using attempt_step [of i j pool q ps t] by simp
  qed
  have b: "isl (attempt pool q ps ?t (i + 1) k) \<longrightarrow> of_int k = n - 1"
    using Suc.prems(4) attempt_step [OF lt, of pool q ps t] by simp
  have rec: "queryWithRetry_loop pool q ps n (i + 1) ?t =
     (case attempt pool q ps ?t (i + 1) k of
        Inl e \<Rightarrow> Inl (Rejected e)
      | Inr r \<Rightarrow> Inr (Some r),
      ?t @ failed_attempts q ps (i + 1) k @ [Query q ps])"
    using Suc.hyps(1) [OF d _ \<open>of_int k < n\<close> a b] lt by simp
  have t_eq: "?t @ failed_attempts q ps (i + 1) k @ [Query q ps] =
      t @ failed_attempts q ps i k @ [Query q ps]"
    by (simp only: failed_attempts_step [OF lt, of q ps] append.simps append_assoc)
  show ?case
    by (simp only: step rec t_eq attempt_step [OF lt, of pool q ps t])
qed

text \<open>
  Among the attempts \<open>i, \<dots>, n - 1\<close> there is one that ends the run: the first that
  resolves, or attempt \<open>n - 1\<close> when none does.
\<close>

lemma ending_attempt_exists:
  fixes f :: "int \<Rightarrow> 'a + 'b"
  assumes "i < n"
  shows "\<exists>k. i \<le> k \<and> k < n \<and> (\<forall>j. i \<le> j \<and> j < k \<longrightarrow> isl (f j))
           \<and> (isl (f k) \<longrightarrow> k = n - 1)"
proof (cases "\<forall>j. i \<le> j \<and> j < n - 1 \<longrightarrow> isl (f j)")
  case True
  with assms show ?thesis by (intro exI [of _ "n - 1"]) simp
next
  case False
  then obtain j where j: "i \<le> j" "j < n - 1" "\<not> isl (f j)" by blast
  define P where "P d = (\<not> isl (f (i + int d)))" for d
  from j have "P (nat (j - i))" by (simp add: P_def)
  then have least: "P (LEAST d. P d)" and le: "(LEAST d. P d) \<le> nat (j - i)"
    by (rule LeastI, rule Least_le)
  define k where "k = i + int (LEAST d. P d)"
  have "i \<le> k" by (simp add: k_def)
  moreover from le j have "k < n" by (simp add: k_def)
  moreover have "\<forall>j'. i \<le> j' \<and> j' < k \<longrightarrow> isl (f j')"
  proof (intro allI impI)
    fix j'
    assume a: "i \<le> j' \<and> j' < k"
    then have "nat (j' - i) < (LEAST d. P d)" unfolding k_def by linarith
    then have "\<not> P (nat (j' - i))" by (rule not_less_Least)
    with a show "isl (f j')" by (simp add: P_def)
  qed
  moreover from least have "\<not> isl (f k)" by (simp add: P_def k_def)
  ultimately show ?thesis by blast
qed

text \<open>
  With a whole \<^verbatim>\<open>maxRetries\<close> the loop ends at such an attempt, and with its
  outcome.
\<close>

lemma loop_contract:
  assumes "i < n"
  shows "\<exists>k. i \<le> k \<and> k < n
     \<and> (\<forall>j. i \<le> j \<and> j < k \<longrightarrow> isl (attempt pool q ps t i j))
     \<and> (isl (attempt pool q ps t i k) \<longrightarrow> k = n - 1)
     \<and> queryWithRetry_loop pool q ps (of_int n) i t =
       (case attempt pool q ps t i k of
          Inl e \<Rightarrow> Inl (Rejected e)
        | Inr r \<Rightarrow> Inr (Some r),
        t @ failed_attempts q ps i k @ [Query q ps])"
proof -
  from ending_attempt_exists [OF assms, of "attempt pool q ps t i"]
  obtain k where k: "i \<le> k" "k < n"
      "\<forall>j. i \<le> j \<and> j < k \<longrightarrow> isl (attempt pool q ps t i j)"
      "isl (attempt pool q ps t i k) \<longrightarrow> k = n - 1"
    by blast
  have "queryWithRetry_loop pool q ps (of_int n) i t =
       (case attempt pool q ps t i k of
          Inl e \<Rightarrow> Inl (Rejected e)
        | Inr r \<Rightarrow> Inr (Some r),
        t @ failed_attempts q ps i k @ [Query q ps])"
    using k by (intro loop_last_attempt) auto
  with k show ?thesis by blast
qed

text \<open>
  When \<^verbatim>\<open>maxRetries - 1\<close> is not a whole number no attempt is the last one
  allowed: if every attempt is rejected, each is followed by its wait and the loop falls
  through to \<^verbatim>\<open>undefined\<close>.
\<close>

lemma loop_never_rethrows:
  assumes "\<forall>j. of_int j \<noteq> n - 1"
    and "\<forall>j. i \<le> j \<and> of_int j < n \<longrightarrow> isl (attempt pool q ps t i j)"
  shows "queryWithRetry_loop pool q ps n i t =
     (Inr None, t @ failed_attempts q ps i (max i \<lceil>n\<rceil>))"
  using assms(2)
proof (induction "nat (\<lceil>n\<rceil> - i)" arbitrary: i t)
  case 0
  then have "\<lceil>n\<rceil> \<le> i" by simp
  then have "\<not> of_int i < n" and "max i \<lceil>n\<rceil> = i"
    by (simp_all add: ceiling_le_iff not_less)
  then show ?case by (simp add: loop_exit)
next
  case (Suc d)
  then have lt: "i < \<lceil>n\<rceil>" by linarith
  then have in': "of_int i < n" by (simp add: less_ceiling_iff)
  with Suc.prems have "isl (attempt pool q ps t i i)" by simp
  then obtain e where e: "pool (t @ [Query q ps]) = Inl e"
    by (auto simp: attempt_def isl_def)
  let ?t = "t @ [Query q ps, Timeout (1000 * (i + 1))]"
  from assms(1) have "of_int i \<noteq> n - 1" by simp
  with in' have step: "queryWithRetry_loop pool q ps n i t =
      queryWithRetry_loop pool q ps n (i + 1) ?t"
    using e by (rule loop_retry)
  have d: "d = nat (\<lceil>n\<rceil> - (i + 1))" using Suc.hyps(2) by linarith
  have a: "\<forall>j. i + 1 \<le> j \<and> of_int j < n \<longrightarrow> isl (attempt pool q ps ?t (i + 1) j)"
  proof (intro allI impI)
    fix j
    assume j: "i + 1 \<le> j \<and> of_int j < n"
    then have "isl (attempt pool q ps t i j)" using Suc.prems by simp
    moreover from j have "i < j" by simp
    ultimately show "isl (attempt pool q ps ?t (i + 1) j)"
      using attempt_step [of i j pool q ps t] by simp
  qed
  from lt have m: "max (i + 1) \<lceil>n\<rceil> = \<lceil>n\<rceil>" "max i \<lceil>n\<rceil> = \<lceil>n\<rceil>" by simp_all
  have rec: "queryWithRetry_loop pool q ps n (i + 1) ?t =
      (Inr None, ?t @ failed_attempts q ps (i + 1) \<lceil>n\<rceil>)"
    using Suc.hyps(1) [OF d a] by (simp only: m)
  have t_eq: "?t @ failed_attempts q ps (i + 1) \<lceil>n\<rceil> = t @ failed_attempts q ps i \<lceil>n\<rceil>"
    by (simp only: failed_attempts_step [OF lt, of q ps] append.simps append_assoc)
  show ?case
    by (simp only: step rec t_eq m)
qed

lemma delays_append: "delays (t @ u) = delays t @ delays u"
  by (induction t rule: delays.induct) simp_all

lemma delays_failed_attempts:
  "delays (failed_attempts q ps i k :: 'e trace) = map (\<lambda>j. 1000 * (j + 1)) [i..k - 1]"
proof (induction "nat (k - i)" arbitrary: i)
  case 0
  then show ?case by (simp add: failed_attempts_def)
next
  case (Suc d)
  then have lt: "i < k" and d: "d = nat (k - (i + 1))" by linarith+
  from lt have "[i..k - 1] = i # [i + 1..k - 1]" by (simp add: upto_rec1)
  then show ?case
    by (simp only: Suc.hyps(1) [OF d] failed_attempts_step [OF lt, of q ps] delays.simps list.map)
qed

text \<open>The default of three attempts, attempt by attempt.\<close>

lemma default_first:
  "pool (t @ [Query q ps]) = Inr r \<Longrightarrow>
     queryWithRetry pool q ps None t = (Inr (Some r), t @ [Query q ps])"
  by (simp add: queryWithRetry_def loop_resolve)

lemma default_second:
  "pool (t @ [Query q ps]) = Inl e0 \<Longrightarrow>
   pool (t @ [Query q ps, Timeout 1000, Query q ps]) = Inr r \<Longrightarrow>
     queryWithRetry pool q ps None t =
       (Inr (Some r), t @ [Query q ps, Timeout 1000, Query q ps])"
  using loop_retry [of 0 3 pool t q ps e0]
    loop_resolve [of 1 3 pool "t @ [Query q ps, Timeout 1000]" q ps r]
  by (simp add: queryWithRetry_def)

lemma default_third:
  "pool (t @ [Query q ps]) = Inl e0 \<Longrightarrow>
   pool (t @ [Query q ps, Timeout 1000, Query q ps]) = Inl e1 \<Longrightarrow>
   pool (t @ [Query q ps, Timeout 1000, Query q ps, Timeout 2000, Query q ps]) = Inr r \<Longrightarrow>
     queryWithRetry pool q ps None t =
       (Inr (Some r), t @ [Query q ps, Timeout 1000, Query q ps, Timeout 2000, Query q ps])"
  using loop_retry [of 0 3 pool t q ps e0]
    loop_retry [of 1 3 pool "t @ [Query q ps, Timeout 1000]" q ps e1]
    loop_resolve [of 2 3 pool "t @ [Query q ps, Timeout 1000, Query q ps, Timeout 2000]" q ps r]
  by (simp add: queryWithRetry_def)

lemma default_exhausted:
  "pool (t @ [Query q ps]) = Inl e0 \<Longrightarrow>
   pool (t @ [Query q ps, Timeout 1000, Query q ps]) = Inl e1 \<Longrightarrow>
   pool (t @ [Query q ps, Timeout 1000, Query q ps, Timeout 2000, Query q ps]) = Inl e2 \<Longrightarrow>
     queryWithRetry pool q ps None t =
       (Inl (Rejected e2),
        t @ [Query q ps, Timeout 1000, Query q ps, Timeout 2000, Query q ps])"
  using loop_retry [of 0 3 pool t q ps e0]
    loop_retry [of 1 3 pool "t @ [Query q ps, Timeout 1000]" q ps e1]
    loop_rethrow [of 2 3 pool "t @ [Query q ps, Timeout 1000, Query q ps, Timeout 2000]" q ps e2]
  by (simp add: queryWithRetry_def)

section \<open>The executor's contract\<close>

text \<open>
  C1. Called with the default of three attempts, \<^verbatim>\<open>queryWithRetry\<close> returns the
  result of the first call of the pool that resolves, and the trace ends with that call:
  no attempt and no wait follows it. When the three calls are all rejected, the trace
  holds exactly three calls of the pool and the value thrown is the one the third call was
  rejected with. This holds for every query, every parameter list and every pool, hence
  for every sequence of outcomes.
\<close>

theorem queryWithRetry_first_success_or_final_error:
  "queryWithRetry pool query params None t =
     (case pool (t @ [Query query params]) of
        Inr r \<Rightarrow> (Inr (Some r), t @ [Query query params])
      | Inl e0 \<Rightarrow>
     (case pool (t @ [Query query params, Timeout 1000, Query query params]) of
        Inr r \<Rightarrow> (Inr (Some r), t @ [Query query params, Timeout 1000, Query query params])
      | Inl e1 \<Rightarrow>
     (case pool (t @ [Query query params, Timeout 1000, Query query params,
                      Timeout 2000, Query query params]) of
        Inr r \<Rightarrow> (Inr (Some r), t @ [Query query params, Timeout 1000, Query query params,
                                     Timeout 2000, Query query params])
      | Inl e2 \<Rightarrow> (Inl (Rejected e2), t @ [Query query params, Timeout 1000, Query query params,
                                     Timeout 2000, Query query params]))))"
proof (cases "pool (t @ [Query query params])")
  case (Inr r)
  then show ?thesis by (simp add: default_first)
next
  case e0: (Inl e0)
  show ?thesis
  proof (cases "pool (t @ [Query query params, Timeout 1000, Query query params])")
    case (Inr r)
    with e0 show ?thesis by (simp add: default_second)
  next
    case e1: (Inl e1)
    show ?thesis
    proof (cases "pool (t @ [Query query params, Timeout 1000, Query query params,
                             Timeout 2000, Query query params])")
      case (Inr r)
      with e0 e1 show ?thesis by (simp add: default_third)
    next
      case (Inl e2)
      with e0 e1 show ?thesis by (simp add: default_exhausted)
    qed
  qed
qed

theorem queryWithRetry_first_success_or_final_error_witness:
  "queryWithRetry pool_flaky ''SELECT * FROM users'' [] None [] =
     (Inr (Some \<lparr>rows = [alice]\<rparr>),
      [Query ''SELECT * FROM users'' [], Timeout 1000,
       Query ''SELECT * FROM users'' [], Timeout 2000,
       Query ''SELECT * FROM users'' []])
   \<and> queryWithRetry pool_down ''SELECT * FROM users'' [] None [] =
     (Inl (Rejected ''ECONNREFUSED''),
      [Query ''SELECT * FROM users'' [], Timeout 1000,
       Query ''SELECT * FROM users'' [], Timeout 2000,
       Query ''SELECT * FROM users'' []])"
  using queryWithRetry_first_success_or_final_error [of pool_flaky "''SELECT * FROM users''" "[]" "[]"]
    queryWithRetry_first_success_or_final_error [of pool_down "''SELECT * FROM users''" "[]" "[]"]
  by (simp add: pool_flaky_def pool_down_def)

text \<open>
  C9. With \<^verbatim>\<open>maxRetries\<close> zero or negative the body of the loop never runs:
  the call resolves to \<^verbatim>\<open>undefined\<close> (\<open>Inr None\<close>) and the trace is unchanged, so
  the pool is not called, no rows are returned and nothing is thrown. The contract of
  the executor, rows of the first call that resolves or else the error of the final
  attempt, needs \<^verbatim>\<open>maxRetries\<close> of at least 1: below 1 a call whose first attempt
  is rejected resolves to \<^verbatim>\<open>undefined\<close> as well. For every whole
  \<^verbatim>\<open>maxRetries\<close> from 1 on the contract holds: the run ends at an attempt \<open>k\<close>
  below \<^verbatim>\<open>maxRetries\<close>, the attempts before \<open>k\<close> were rejected, attempt \<open>k\<close>
  resolved or is the last one allowed, and the call returns the rows of attempt \<open>k\<close>
  or throws what it was rejected with. A \<^verbatim>\<open>maxRetries\<close> that is positive and not
  whole has no last attempt: when every attempt is rejected, each error is swallowed
  and the call resolves to \<^verbatim>\<open>undefined\<close> after the wait of the final attempt.
\<close>

theorem queryWithRetry_nonpositive_maxRetries:
  "(maxRetries \<le> 0 \<longrightarrow>
      queryWithRetry pool query params (Some maxRetries) t = (Inr None, t))
   \<and> (maxRetries < 1 \<and> isl (pool (t @ [Query query params])) \<longrightarrow>
      fst (queryWithRetry pool query params (Some maxRetries) t) = Inr None)
   \<and> (1 \<le> n \<longrightarrow>
      (\<exists>k. 0 \<le> k \<and> k < n
         \<and> (\<forall>j. 0 \<le> j \<and> j < k \<longrightarrow> isl (attempt pool query params t 0 j))
         \<and> (isl (attempt pool query params t 0 k) \<longrightarrow> k = n - 1)
         \<and> queryWithRetry pool query params (Some (of_int n)) t =
             (case attempt pool query params t 0 k of
                Inl e \<Rightarrow> Inl (Rejected e)
              | Inr r \<Rightarrow> Inr (Some r),
              t @ failed_attempts query params 0 k @ [Query query params])))
   \<and> (0 < maxRetries \<and> maxRetries \<notin> \<int>
        \<and> (\<forall>j. 0 \<le> j \<and> of_int j < maxRetries \<longrightarrow> isl (attempt pool query params t 0 j))
      \<longrightarrow> queryWithRetry pool query params (Some maxRetries) t =
            (Inr None, t @ failed_attempts query params 0 \<lceil>maxRetries\<rceil>))"
proof (intro conjI impI)
  assume "maxRetries \<le> 0"
  then show "queryWithRetry pool query params (Some maxRetries) t = (Inr None, t)"
    by (simp add: queryWithRetry_def loop_exit)
next
  assume a: "maxRetries < 1 \<and> isl (pool (t @ [Query query params]))"
  show "fst (queryWithRetry pool query params (Some maxRetries) t) = Inr None"
  proof (cases "0 < maxRetries")
    case False
    then show ?thesis by (simp add: queryWithRetry_def loop_exit)
  next
    case True
    from a obtain e where e: "pool (t @ [Query query params]) = Inl e"
      by (auto simp: isl_def)
    from True a have "queryWithRetry_loop pool query params maxRetries 0 t =
        queryWithRetry_loop pool query params maxRetries (0 + 1)
          (t @ [Query query params, Timeout (1000 * (0 + 1))])"
      using e by (intro loop_retry) simp_all
    moreover from a have "queryWithRetry_loop pool query params maxRetries (0 + 1)
          (t @ [Query query params, Timeout (1000 * (0 + 1))]) =
        (Inr None, t @ [Query query params, Timeout (1000 * (0 + 1))])"
      by (intro loop_exit) simp
    ultimately show ?thesis by (simp add: queryWithRetry_def)
  qed
next
  assume "1 \<le> n"
  then have "0 < n" by simp
  from loop_contract [OF this, of pool query params t]
  show "\<exists>k. 0 \<le> k \<and> k < n
         \<and> (\<forall>j. 0 \<le> j \<and> j < k \<longrightarrow> isl (attempt pool query params t 0 j))
         \<and> (isl (attempt pool query params t 0 k) \<longrightarrow> k = n - 1)
         \<and> queryWithRetry pool query params (Some (of_int n)) t =
             (case attempt pool query params t 0 k of
                Inl e \<Rightarrow> Inl (Rejected e)
              | Inr r \<Rightarrow> Inr (Some r),
              t @ failed_attempts query params 0 k @ [Query query params])"
    by (simp add: queryWithRetry_def)
next
  assume a: "0 < maxRetries \<and> maxRetries \<notin> \<int>
        \<and> (\<forall>j. 0 \<le> j \<and> of_int j < maxRetries \<longrightarrow> isl (attempt pool query params t 0 j))"
  have "\<forall>j. real_of_int j \<noteq> maxRetries - 1"
  proof
    fix j :: int
    show "real_of_int j \<noteq> maxRetries - 1"
    proof
      assume "real_of_int j = maxRetries - 1"
      then have "maxRetries = of_int (j + 1)" by simp
      then have "maxRetries \<in> \<int>" by (simp only: Ints_of_int)
      with a show False by simp
    qed
  qed
  moreover from a have "\<forall>j. 0 \<le> j \<and> of_int j < maxRetries
      \<longrightarrow> isl (attempt pool query params t 0 j)"
    by simp
  ultimately have "queryWithRetry_loop pool query params maxRetries 0 t =
      (Inr None, t @ failed_attempts query params 0 (max 0 \<lceil>maxRetries\<rceil>))"
    by (rule loop_never_rethrows)
  moreover from a have "max 0 \<lceil>maxRetries\<rceil> = \<lceil>maxRetries\<rceil>" by simp
  ultimately show "queryWithRetry pool query params (Some maxRetries) t =
      (Inr None, t @ failed_attempts query params 0 \<lceil>maxRetries\<rceil>)"
    by (simp add: queryWithRetry_def)
qed

theorem queryWithRetry_nonpositive_maxRetries_witness:
  "queryWithRetry pool_down ''SELECT * FROM users'' [] (Some 0) [] = (Inr None, [])
   \<and> queryWithRetry pool_down ''SELECT * FROM users'' [] (Some (- 1)) [] = (Inr None, [])
   \<and> fst (queryWithRetry pool_down ''SELECT * FROM users'' [] (Some (1 / 2)) []) = Inr None
   \<and> queryWithRetry pool_down ''SELECT * FROM users'' [] (Some 1) []
       = (Inl (Rejected ''ECONNREFUSED''), [Query ''SELECT * FROM users'' []])
   \<and> queryWithRetry pool_down ''SELECT * FROM users'' [] (Some (3 / 2)) []
       = (Inr None,
          [Query ''SELECT * FROM users'' [], Timeout 1000,
           Query ''SELECT * FROM users'' [], Timeout 2000])"
proof -
  have c: "\<lceil>3 / 2 :: real\<rceil> = 2"
    by (simp add: ceiling_eq_iff)
  have f: "failed_attempts ''SELECT * FROM users'' [] 0 2 =
      [Query ''SELECT * FROM users'' [], Timeout 1000,
       Query ''SELECT * FROM users'' [], Timeout 2000 :: string event]"
    by (simp add: failed_attempts_def upto_rec1)
  have i: "(3 / 2 :: real) \<notin> \<int>"
  proof
    assume "(3 / 2 :: real) \<in> \<int>"
    then obtain z :: int where "(3 / 2 :: real) = of_int z" by (auto elim: Ints_cases)
    then have "real_of_int (2 * z) = real_of_int 3" by simp
    then have "2 * z = 3" by (simp only: of_int_eq_iff)
    then show False by presburger
  qed
  have one: "queryWithRetry pool_down ''SELECT * FROM users'' [] (Some 1) []
       = (Inl (Rejected ''ECONNREFUSED''), [Query ''SELECT * FROM users'' []])"
    using queryWithRetry_nonpositive_maxRetries
        [of 0 pool_down "''SELECT * FROM users''" "[]" "[]" 1]
    by (auto simp: attempt_def pool_down_def)
  show ?thesis
    using queryWithRetry_nonpositive_maxRetries
        [of 0 pool_down "''SELECT * FROM users''" "[]" "[]" 1]
      queryWithRetry_nonpositive_maxRetries
        [of "- 1" pool_down "''SELECT * FROM users''" "[]" "[]" 1]
      queryWithRetry_nonpositive_maxRetries
        [of "1 / 2" pool_down "''SELECT * FROM users''" "[]" "[]" 1]
      queryWithRetry_nonpositive_maxRetries
        [of "3 / 2" pool_down "''SELECT * FROM users''" "[]" "[]" 1]
    by (simp add: one c f i attempt_def pool_down_def)
qed

section \<open>Backoff\<close>

text \<open>
  C7. Let attempt \<open>k\<close> be the one that ends the run: the attempts before it are
  rejected, and it resolves or is the last one allowed. Then each rejected attempt
  \<open>i < k\<close> is followed, before the next call of the pool, by one wait of
  \<open>1000 * (i + 1)\<close> milliseconds, and nothing follows the call of attempt \<open>k\<close>. The
  delay is the one handed to \<^verbatim>\<open>setTimeout\<close>. For three attempts that are all
  rejected the delays are 1000 then 2000, as the concrete run below shows.
\<close>

theorem queryWithRetry_backoff:
  assumes "n = (case maxRetries of None \<Rightarrow> 3 | Some m \<Rightarrow> m)"
    and "0 \<le> k" and "of_int k < n"
    and "\<forall>j. 0 \<le> j \<and> j < k \<longrightarrow> isl (attempt pool query params t 0 j)"
    and "isl (attempt pool query params t 0 k) \<longrightarrow> of_int k = n - 1"
  shows "snd (queryWithRetry pool query params maxRetries t) =
           t @ concat (map (\<lambda>i. [Query query params, Timeout (1000 * (i + 1))]) [0..k - 1])
             @ [Query query params]
         \<and> delays (snd (queryWithRetry pool query params maxRetries t)) =
           delays t @ map (\<lambda>i. 1000 * (i + 1)) [0..k - 1]"
proof -
  have "queryWithRetry pool query params maxRetries t =
      queryWithRetry_loop pool query params n 0 t"
    by (simp add: queryWithRetry_def assms(1))
  also have "\<dots> = (case attempt pool query params t 0 k of
          Inl e \<Rightarrow> Inl (Rejected e)
        | Inr r \<Rightarrow> Inr (Some r),
        t @ failed_attempts query params 0 k @ [Query query params])"
    using assms(2-5) by (rule loop_last_attempt)
  finally have tr: "snd (queryWithRetry pool query params maxRetries t) =
      t @ failed_attempts query params 0 k @ [Query query params]"
    by simp
  have "delays (t @ failed_attempts query params 0 k @ [Query query params]) =
      delays t @ map (\<lambda>i. 1000 * (i + 1)) [0..k - 1]"
    by (simp add: delays_append delays_failed_attempts)
  with tr show ?thesis
    by (simp add: failed_attempts_def)
qed

theorem queryWithRetry_backoff_witness:
  "snd (queryWithRetry pool_down ''SELECT * FROM users'' [] None []) =
     [Query ''SELECT * FROM users'' [], Timeout 1000,
      Query ''SELECT * FROM users'' [], Timeout 2000,
      Query ''SELECT * FROM users'' []]
   \<and> delays (snd (queryWithRetry pool_down ''SELECT * FROM users'' [] None [])) = [1000, 2000]"
proof -
  have u: "[0..1] = [0, 1 :: int]"
    by (simp add: upto_rec1)
  have a: "\<forall>j. 0 \<le> j \<and> j < 2 \<longrightarrow> isl (attempt pool_down ''SELECT * FROM users'' [] [] 0 j)"
    by (simp add: attempt_def pool_down_def)
  have b: "isl (attempt pool_down ''SELECT * FROM users'' [] [] 0 2)
      \<longrightarrow> real_of_int 2 = 3 - 1"
    by simp
  show ?thesis
    using queryWithRetry_backoff [of 3 None 2 pool_down "''SELECT * FROM users''" "[]" "[]", OF _ _ _ a b]
    by (simp add: u)
qed

section \<open>The repository's shared steps\<close>

lemma default_outcome:
  "(\<exists>r t'. queryWithRetry pool q ps None t = (Inr (Some r), t'))
   \<or> (\<exists>e t'. queryWithRetry pool q ps None t = (Inl (Rejected e), t'))"
proof (cases "pool (t @ [Query q ps])")
  case (Inr r)
  then show ?thesis by (simp add: default_first)
next
  case e0: (Inl e0)
  show ?thesis
  proof (cases "pool (t @ [Query q ps, Timeout 1000, Query q ps])")
    case (Inr r)
    with e0 show ?thesis by (simp add: default_second)
  next
    case e1: (Inl e1)
    show ?thesis
      by (cases "pool (t @ [Query q ps, Timeout 1000, Query q ps, Timeout 2000, Query q ps])")
        (simp_all add: default_third [OF e0 e1] default_exhausted [OF e0 e1])
  qed
qed

lemma default_throws_iff:
  "isl (fst (queryWithRetry pool q ps None t)) =
     (isl (pool (t @ [Query q ps]))
      \<and> isl (pool (t @ [Query q ps, Timeout 1000, Query q ps]))
      \<and> isl (pool (t @ [Query q ps, Timeout 1000, Query q ps, Timeout 2000, Query q ps])))"
proof (cases "pool (t @ [Query q ps])")
  case (Inr r)
  then show ?thesis by (simp add: default_first)
next
  case e0: (Inl e0)
  show ?thesis
  proof (cases "pool (t @ [Query q ps, Timeout 1000, Query q ps])")
    case (Inr r)
    with e0 show ?thesis by (simp add: default_second)
  next
    case e1: (Inl e1)
    show ?thesis
      by (cases "pool (t @ [Query q ps, Timeout 1000, Query q ps, Timeout 2000, Query q ps])")
        (simp_all add: e0 e1 default_third [OF e0 e1] default_exhausted [OF e0 e1])
  qed
qed

lemma default_first_event:
  "take (Suc (length t)) (snd (queryWithRetry pool q ps None t)) = t @ [Query q ps]"
proof (cases "pool (t @ [Query q ps])")
  case (Inr r)
  then show ?thesis by (simp add: default_first)
next
  case e0: (Inl e0)
  show ?thesis
  proof (cases "pool (t @ [Query q ps, Timeout 1000, Query q ps])")
    case (Inr r)
    with e0 show ?thesis by (simp add: default_second)
  next
    case e1: (Inl e1)
    show ?thesis
      by (cases "pool (t @ [Query q ps, Timeout 1000, Query q ps, Timeout 2000, Query q ps])")
        (simp_all add: default_third [OF e0 e1] default_exhausted [OF e0 e1])
  qed
qed

lemma query_rows_throw:
  "queryWithRetry pool q ps None t = (Inl e, t') \<Longrightarrow> query_rows pool q ps ret t = (Inl e, t')"
  by (simp add: query_rows_def)

lemma query_rows_return:
  "queryWithRetry pool q ps None t = (Inr (Some r), t') \<Longrightarrow>
     query_rows pool q ps ret t = (Inr (ret (rows r)), t')"
  by (simp add: query_rows_def result_rows_def)

lemma query_rows_isl:
  "isl (fst (query_rows pool q ps ret t)) = isl (fst (queryWithRetry pool q ps None t))"
  using default_outcome [of pool q ps t]
  by (auto simp: query_rows_throw query_rows_return)

lemma query_rows_not_Error: "fst (query_rows pool q ps ret t) \<noteq> Inl (Error msg)"
  using default_outcome [of pool q ps t]
  by (auto simp: query_rows_throw query_rows_return)

lemma query_rows_trace:
  "snd (query_rows pool q ps ret t) = snd (queryWithRetry pool q ps None t)"
  using default_outcome [of pool q ps t]
  by (auto simp: query_rows_throw query_rows_return)

lemma catch_log_throw: "catch_log msg (Inl e, t) = (Inl e, t @ [ConsoleError msg e])"
  by (simp add: catch_log_def console_error_def)

lemma catch_log_return: "catch_log msg (Inr v, t) = (Inr v, t)"
  by (simp add: catch_log_def)

lemma fst_catch_log: "fst (catch_log msg r) = fst r"
  by (cases r, cases "fst r") (simp_all add: catch_log_def)

lemma take_catch_log:
  "n \<le> length (snd r) \<Longrightarrow> take n (snd (catch_log msg r)) = take n (snd r)"
  by (cases r, cases "fst r") (simp_all add: catch_log_def console_error_def)

lemma default_trace_length: "Suc (length t) \<le> length (snd (queryWithRetry pool q ps None t))"
proof -
  have "length (take (Suc (length t)) (snd (queryWithRetry pool q ps None t))) = Suc (length t)"
    by (simp only: default_first_event) simp
  then show ?thesis by simp
qed

lemma update_valid:
  "truthy userData \<Longrightarrow>
   truthy (get_prop userData ''name'') \<or> truthy (get_prop userData ''email'') \<Longrightarrow>
     update pool userId userData t =
       catch_log ''Error updating user:''
         (query_rows pool (fst (update_query userId userData))
            (snd (update_query userId userData)) first_row t)"
  by (auto simp: update_def split: prod.split)

lemma create_valid:
  "truthy userData \<Longrightarrow> truthy (get_prop userData ''name'') \<Longrightarrow>
   truthy (get_prop userData ''email'') \<Longrightarrow>
     create pool userData t =
       catch_log ''Error creating user:''
         (query_rows pool ''INSERT INTO users (name, email) VALUES ($1, $2) RETURNING *''
            [get_prop userData ''name'', get_prop userData ''email''] first_row t)"
  by (simp add: create_def)

lemma truthy_get_prop: "truthy (get_prop userData k) \<Longrightarrow> truthy userData"
  by (cases userData) simp_all

text \<open>The three statements the builder of \<^verbatim>\<open>update\<close> can produce.\<close>

lemma string_of_nat_small:
  "string_of_nat (Suc 0) = ''1''"
  "string_of_nat (Suc (Suc 0)) = ''2''"
  "string_of_nat (Suc (Suc (Suc 0))) = ''3''"
  by (simp_all add: string_of_nat.simps)

lemma update_query_name_only:
  "get_prop userData ''name'' \<noteq> Undefined \<Longrightarrow> get_prop userData ''email'' = Undefined \<Longrightarrow>
     update_query userId userData =
       (''UPDATE users SET name = $1 WHERE id = $2 RETURNING *'',
        [get_prop userData ''name'', userId])"
  by (simp add: update_query_def update_parts_def string_of_nat_small)

lemma update_query_email_only:
  "get_prop userData ''name'' = Undefined \<Longrightarrow> get_prop userData ''email'' \<noteq> Undefined \<Longrightarrow>
     update_query userId userData =
       (''UPDATE users SET email = $1 WHERE id = $2 RETURNING *'',
        [get_prop userData ''email'', userId])"
  by (simp add: update_query_def update_parts_def string_of_nat_small)

lemma update_query_both:
  "get_prop userData ''name'' \<noteq> Undefined \<Longrightarrow> get_prop userData ''email'' \<noteq> Undefined \<Longrightarrow>
     update_query userId userData =
       (''UPDATE users SET name = $1, email = $2 WHERE id = $3 RETURNING *'',
        [get_prop userData ''name'', get_prop userData ''email'', userId])"
  by (simp add: update_query_def update_parts_def string_of_nat_small)

section \<open>Not found\<close>

text \<open>
  C5. When the executor returns a result of the store that has no row,
  \<^verbatim>\<open>findById\<close> returns \<^verbatim>\<open>null\<close> and throws nothing. It throws exactly when
  the three calls of the pool that the executor makes are all rejected, that is when the
  store call has failed and the retries are used up.
\<close>

theorem findById_not_found_is_null:
  "(queryWithRetry pool ''SELECT * FROM users WHERE id = $1'' [userId] None t
        = (Inr (Some r), t') \<and> rows r = []
      \<longrightarrow> findById pool userId t = (Inr Null, t'))
   \<and> isl (fst (findById pool userId t)) =
       (isl (pool (t @ [Query ''SELECT * FROM users WHERE id = $1'' [userId]]))
        \<and> isl (pool (t @ [Query ''SELECT * FROM users WHERE id = $1'' [userId], Timeout 1000,
                          Query ''SELECT * FROM users WHERE id = $1'' [userId]]))
        \<and> isl (pool (t @ [Query ''SELECT * FROM users WHERE id = $1'' [userId], Timeout 1000,
                          Query ''SELECT * FROM users WHERE id = $1'' [userId], Timeout 2000,
                          Query ''SELECT * FROM users WHERE id = $1'' [userId]])))"
proof (intro conjI impI)
  assume "queryWithRetry pool ''SELECT * FROM users WHERE id = $1'' [userId] None t
        = (Inr (Some r), t') \<and> rows r = []"
  then show "findById pool userId t = (Inr Null, t')"
    by (simp add: findById_def query_rows_return catch_log_return first_row_def js_or_def)
next
  show "isl (fst (findById pool userId t)) =
       (isl (pool (t @ [Query ''SELECT * FROM users WHERE id = $1'' [userId]]))
        \<and> isl (pool (t @ [Query ''SELECT * FROM users WHERE id = $1'' [userId], Timeout 1000,
                          Query ''SELECT * FROM users WHERE id = $1'' [userId]]))
        \<and> isl (pool (t @ [Query ''SELECT * FROM users WHERE id = $1'' [userId], Timeout 1000,
                          Query ''SELECT * FROM users WHERE id = $1'' [userId], Timeout 2000,
                          Query ''SELECT * FROM users WHERE id = $1'' [userId]])))"
    by (simp only: findById_def fst_catch_log query_rows_isl default_throws_iff)
qed

theorem findById_not_found_is_null_witness:
  "findById pool_empty (Str ''7'') [] =
     (Inr Null, [Query ''SELECT * FROM users WHERE id = $1'' [Str ''7'']])
   \<and> \<not> isl (fst (findById pool_empty (Str ''7'') []))
   \<and> isl (fst (findById pool_down (Str ''7'') []))"
proof -
  have q: "queryWithRetry pool_empty ''SELECT * FROM users WHERE id = $1'' [Str ''7''] None []
      = (Inr (Some \<lparr>rows = []\<rparr>), [Query ''SELECT * FROM users WHERE id = $1'' [Str ''7'']])"
    by (simp add: default_first pool_empty_def)
  show ?thesis
    using findById_not_found_is_null [of pool_empty "Str ''7''" "[]" "\<lparr>rows = []\<rparr>"
        "[Query ''SELECT * FROM users WHERE id = $1'' [Str ''7'']]"]
      findById_not_found_is_null [of pool_down "Str ''7''" "[]" "\<lparr>rows = []\<rparr>" "[]"]
    by (simp add: q pool_empty_def pool_down_def)
qed

section \<open>Errors of the store\<close>

text \<open>
  C8. In each of \<^verbatim>\<open>findById\<close>, \<^verbatim>\<open>findAll\<close>, \<^verbatim>\<open>create\<close>,
  \<^verbatim>\<open>update\<close> and \<^verbatim>\<open>delete\<close> (the last three past their validation), when the
  executor throws \<open>e\<close> the method writes one line to \<^verbatim>\<open>console.error\<close> carrying
  \<open>e\<close> and then throws the same \<open>e\<close>: no other value is put in its place and nothing
  else is added to the trace.
\<close>

theorem repository_rethrows_executor_error:
  "(queryWithRetry pool ''SELECT * FROM users WHERE id = $1'' [userId] None t = (Inl e, t')
      \<longrightarrow> findById pool userId t
            = (Inl e, t' @ [ConsoleError ''Error fetching user by ID:'' e]))
   \<and> (queryWithRetry pool ''SELECT * FROM users'' [] None t = (Inl e, t')
      \<longrightarrow> findAll pool t = (Inl e, t' @ [ConsoleError ''Error fetching all users:'' e]))
   \<and> (truthy userData \<and> truthy (get_prop userData ''name'')
        \<and> truthy (get_prop userData ''email'')
        \<and> queryWithRetry pool ''INSERT INTO users (name, email) VALUES ($1, $2) RETURNING *''
             [get_prop userData ''name'', get_prop userData ''email''] None t = (Inl e, t')
      \<longrightarrow> create pool userData t = (Inl e, t' @ [ConsoleError ''Error creating user:'' e]))
   \<and> (truthy userData
        \<and> (truthy (get_prop userData ''name'') \<or> truthy (get_prop userData ''email''))
        \<and> queryWithRetry pool (fst (update_query userId userData))
             (snd (update_query userId userData)) None t = (Inl e, t')
      \<longrightarrow> update pool userId userData t
            = (Inl e, t' @ [ConsoleError ''Error updating user:'' e]))
   \<and> (queryWithRetry pool ''DELETE FROM users WHERE id = $1 RETURNING *'' [userId] None t
        = (Inl e, t')
      \<longrightarrow> delete pool userId t = (Inl e, t' @ [ConsoleError ''Error deleting user:'' e]))"
proof (intro conjI impI)
  assume "queryWithRetry pool ''SELECT * FROM users WHERE id = $1'' [userId] None t = (Inl e, t')"
  then show "findById pool userId t
      = (Inl e, t' @ [ConsoleError ''Error fetching user by ID:'' e])"
    by (simp add: findById_def query_rows_throw catch_log_throw)
next
  assume "queryWithRetry pool ''SELECT * FROM users'' [] None t = (Inl e, t')"
  then show "findAll pool t = (Inl e, t' @ [ConsoleError ''Error fetching all users:'' e])"
    by (simp add: findAll_def query_rows_throw catch_log_throw)
next
  assume "truthy userData \<and> truthy (get_prop userData ''name'')
        \<and> truthy (get_prop userData ''email'')
        \<and> queryWithRetry pool ''INSERT INTO users (name, email) VALUES ($1, $2) RETURNING *''
             [get_prop userData ''name'', get_prop userData ''email''] None t = (Inl e, t')"
  then show "create pool userData t = (Inl e, t' @ [ConsoleError ''Error creating user:'' e])"
    by (simp add: create_valid query_rows_throw catch_log_throw)
next
  assume a: "truthy userData
        \<and> (truthy (get_prop userData ''name'') \<or> truthy (get_prop userData ''email''))
        \<and> queryWithRetry pool (fst (update_query userId userData))
             (snd (update_query userId userData)) None t = (Inl e, t')"
  then have "update pool userId userData t =
       catch_log ''Error updating user:''
         (query_rows pool (fst (update_query userId userData))
            (snd (update_query userId userData)) first_row t)"
    by (intro update_valid) simp_all
  with a show "update pool userId userData t
      = (Inl e, t' @ [ConsoleError ''Error updating user:'' e])"
    by (simp add: query_rows_throw catch_log_throw)
next
  assume "queryWithRetry pool ''DELETE FROM users WHERE id = $1 RETURNING *'' [userId] None t
        = (Inl e, t')"
  then show "delete pool userId t = (Inl e, t' @ [ConsoleError ''Error deleting user:'' e])"
    by (simp add: delete_def query_rows_throw catch_log_throw)
qed

theorem repository_rethrows_executor_error_witness:
  "findById pool_down (Str ''7'') [] =
     (Inl (Rejected ''ECONNREFUSED''),
      [Query ''SELECT * FROM users WHERE id = $1'' [Str ''7''], Timeout 1000,
       Query ''SELECT * FROM users WHERE id = $1'' [Str ''7''], Timeout 2000,
       Query ''SELECT * FROM users WHERE id = $1'' [Str ''7''],
       ConsoleError ''Error fetching user by ID:'' (Rejected ''ECONNREFUSED'')])
   \<and> fst (findAll pool_down []) = Inl (Rejected ''ECONNREFUSED'')
   \<and> fst (create pool_down (Obj [(''name'', Str ''Alice''), (''email'', Str ''alice@x.com'')]) [])
       = Inl (Rejected ''ECONNREFUSED'')
   \<and> update pool_down (Str ''7'') (Obj [(''name'', Str ''A'')]) [] =
     (Inl (Rejected ''ECONNREFUSED''),
      [Query ''UPDATE users SET name = $1 WHERE id = $2 RETURNING *'' [Str ''A'', Str ''7''],
       Timeout 1000,
       Query ''UPDATE users SET name = $1 WHERE id = $2 RETURNING *'' [Str ''A'', Str ''7''],
       Timeout 2000,
       Query ''UPDATE users SET name = $1 WHERE id = $2 RETURNING *'' [Str ''A'', Str ''7''],
       ConsoleError ''Error updating user:'' (Rejected ''ECONNREFUSED'')])
   \<and> fst (delete pool_down (Str ''7'') []) = Inl (Rejected ''ECONNREFUSED'')"
proof -
  have down: "\<And>q ps. queryWithRetry pool_down q ps None [] =
      (Inl (Rejected ''ECONNREFUSED''),
       [Query q ps, Timeout 1000, Query q ps, Timeout 2000, Query q ps])"
    by (rule default_exhausted [where t = "[]", simplified]) (simp_all add: pool_down_def)
  have uq: "update_query (Str ''7'') (Obj [(''name'', Str ''A'')]) =
      (''UPDATE users SET name = $1 WHERE id = $2 RETURNING *'', [Str ''A'', Str ''7''])"
    by (simp add: update_query_name_only)
  show ?thesis
    using repository_rethrows_executor_error [of pool_down "Str ''7''" "[]"
        "Rejected ''ECONNREFUSED''"
        "[Query ''SELECT * FROM users WHERE id = $1'' [Str ''7''], Timeout 1000,
          Query ''SELECT * FROM users WHERE id = $1'' [Str ''7''], Timeout 2000,
          Query ''SELECT * FROM users WHERE id = $1'' [Str ''7'']]"
        "Obj [(''name'', Str ''A'')]"]
      repository_rethrows_executor_error [of pool_down "Str ''7''" "[]"
        "Rejected ''ECONNREFUSED''"
        "[Query ''SELECT * FROM users'' [], Timeout 1000,
          Query ''SELECT * FROM users'' [], Timeout 2000,
          Query ''SELECT * FROM users'' []]"
        "Obj [(''name'', Str ''A'')]"]
      repository_rethrows_executor_error [of pool_down "Str ''7''" "[]"
        "Rejected ''ECONNREFUSED''"
        "[Query ''INSERT INTO users (name, email) VALUES ($1, $2) RETURNING *''
            [Str ''Alice'', Str ''alice@x.com''], Timeout 1000,
          Query ''INSERT INTO users (name, email) VALUES ($1, $2) RETURNING *''
            [Str ''Alice'', Str ''alice@x.com''], Timeout 2000,
          Query ''INSERT INTO users (name, email) VALUES ($1, $2) RETURNING *''
            [Str ''Alice'', Str ''alice@x.com'']]"
        "Obj [(''name'', Str ''Alice''), (''email'', Str ''alice@x.com'')]"]
      repository_rethrows_executor_error [of pool_down "Str ''7''" "[]"
        "Rejected ''ECONNREFUSED''"
        "[Query ''UPDATE users SET name = $1 WHERE id = $2 RETURNING *'' [Str ''A'', Str ''7''],
          Timeout 1000,
          Query ''UPDATE users SET name = $1 WHERE id = $2 RETURNING *'' [Str ''A'', Str ''7''],
          Timeout 2000,
          Query ''UPDATE users SET name = $1 WHERE id = $2 RETURNING *'' [Str ''A'', Str ''7'']]"
        "Obj [(''name'', Str ''A'')]"]
      repository_rethrows_executor_error [of pool_down "Str ''7''" "[]"
        "Rejected ''ECONNREFUSED''"
        "[Query ''DELETE FROM users WHERE id = $1 RETURNING *'' [Str ''7''], Timeout 1000,
          Query ''DELETE FROM users WHERE id = $1 RETURNING *'' [Str ''7''], Timeout 2000,
          Query ''DELETE FROM users WHERE id = $1 RETURNING *'' [Str ''7'']]"
        "Obj [(''name'', Str ''A'')]"]
    by (simp add: down uq)
qed

section \<open>Validation\<close>

lemma missing_or_empty_falsy: "missing_or_empty v \<Longrightarrow> \<not> truthy v"
  by (auto simp: missing_or_empty_def)

text \<open>
  C3. When \<^verbatim>\<open>name\<close> or \<^verbatim>\<open>email\<close> of the data is missing or empty,
  \<^verbatim>\<open>create\<close> throws its validation error, the
  \<^verbatim>\<open>Error\<close> with the message \<^verbatim>\<open>User data must include name and email\<close>, and
  the trace is unchanged: no call of the pool, no wait and no log line, for every pool.
  The same holds when the data itself is \<^verbatim>\<open>undefined\<close> or \<^verbatim>\<open>null\<close>,
  whose fields read as missing here.
\<close>

theorem create_validates_before_store:
  assumes "missing_or_empty (get_prop userData ''name'')
           \<or> missing_or_empty (get_prop userData ''email'')"
  shows "create pool userData t = (Inl (Error ''User data must include name and email''), t)"
  using assms by (auto simp: create_def dest: missing_or_empty_falsy)

theorem create_validates_before_store_witness:
  "create pool_flaky (Obj [(''name'', Str ''Alice'')]) []
     = (Inl (Error ''User data must include name and email''), [])
   \<and> create pool_flaky (Obj [(''name'', Str ''''), (''email'', Str ''alice@x.com'')]) []
     = (Inl (Error ''User data must include name and email''), [])"
  using create_validates_before_store [of "Obj [(''name'', Str ''Alice'')]" pool_flaky "[]"]
    create_validates_before_store
      [of "Obj [(''name'', Str ''''), (''email'', Str ''alice@x.com'')]" pool_flaky "[]"]
  by (simp add: missing_or_empty_def)

text \<open>
  C4, as the code has it. The test of \<^verbatim>\<open>update\<close> is truthiness, not presence:
  when the data is falsy, or \<^verbatim>\<open>name\<close> and \<^verbatim>\<open>email\<close> are both falsy
  (\<^verbatim>\<open>undefined\<close>, \<^verbatim>\<open>null\<close>, the empty string, 0, \<^verbatim>\<open>false\<close>),
  \<^verbatim>\<open>update\<close> throws its validation error and the trace is unchanged; when the data
  is truthy and at least one of the two fields is truthy, no validation error is thrown,
  whatever the store does.
\<close>

theorem update_validation:
  "(\<not> truthy userData
      \<or> (\<not> truthy (get_prop userData ''name'') \<and> \<not> truthy (get_prop userData ''email''))
      \<longrightarrow> update pool userId userData t
            = (Inl (Error ''User data must include at least name or email to update''), t))
   \<and> (truthy userData
        \<and> (truthy (get_prop userData ''name'') \<or> truthy (get_prop userData ''email''))
      \<longrightarrow> (\<forall>msg. fst (update pool userId userData t) \<noteq> Inl (Error msg)))"
proof (intro conjI impI allI)
  assume "\<not> truthy userData
      \<or> (\<not> truthy (get_prop userData ''name'') \<and> \<not> truthy (get_prop userData ''email''))"
  then show "update pool userId userData t
      = (Inl (Error ''User data must include at least name or email to update''), t)"
    by (simp add: update_def)
next
  fix msg
  assume "truthy userData
        \<and> (truthy (get_prop userData ''name'') \<or> truthy (get_prop userData ''email''))"
  then have "update pool userId userData t =
       catch_log ''Error updating user:''
         (query_rows pool (fst (update_query userId userData))
            (snd (update_query userId userData)) first_row t)"
    by (intro update_valid) simp_all
  then show "fst (update pool userId userData t) \<noteq> Inl (Error msg)"
    by (simp add: fst_catch_log query_rows_not_Error)
qed

theorem update_validation_witness:
  "update pool_empty (Str ''7'') (Obj []) []
     = (Inl (Error ''User data must include at least name or email to update''), [])
   \<and> update pool_empty (Str ''7'') Null []
     = (Inl (Error ''User data must include at least name or email to update''), [])
   \<and> fst (update pool_empty (Str ''7'') (Obj [(''email'', Str ''b@x.com'')]) [])
       \<noteq> Inl (Error ''User data must include at least name or email to update'')"
  using update_validation [of "Obj []" pool_empty "Str ''7''" "[]"]
    update_validation [of Null pool_empty "Str ''7''" "[]"]
    update_validation [of "Obj [(''email'', Str ''b@x.com'')]" pool_empty "Str ''7''" "[]"]
  by simp

text \<open>
  The input that separates the two readings of "present": \<^verbatim>\<open>update('7', {name: ''})\<close>.
  The field \<^verbatim>\<open>name\<close> is there, it is not \<^verbatim>\<open>undefined\<close>, and the call fails
  with the validation error without a call of the store.
\<close>

theorem update_present_but_empty_counterexample:
  "get_prop (Obj [(''name'', Str '''')]) ''name'' \<noteq> Undefined
   \<and> update pool_empty (Str ''7'') (Obj [(''name'', Str '''')]) []
     = (Inl (Error ''User data must include at least name or email to update''), [])"
  by (simp add: update_def)

section \<open>No matching row\<close>

text \<open>
  C6. For an id that matches no row, \<^verbatim>\<open>findById\<close>, \<^verbatim>\<open>update\<close> and
  \<^verbatim>\<open>delete\<close> are to return one not-found sentinel, \<^verbatim>\<open>null\<close>. The code
  delivers it in \<^verbatim>\<open>findById\<close> only. \<^verbatim>\<open>findById\<close> ends with \<^verbatim>\<open>rows[0] || null\<close>,
  while \<^verbatim>\<open>delete\<close> and \<^verbatim>\<open>update\<close> end with \<^verbatim>\<open>rows[0]\<close> alone: when
  the executor returns a result of the store that has no row, \<^verbatim>\<open>findById\<close>
  returns \<^verbatim>\<open>null\<close>, and \<^verbatim>\<open>delete\<close>, and \<^verbatim>\<open>update\<close> on data that
  passes validation, return \<^verbatim>\<open>undefined\<close>. None of the three throws.
\<close>

theorem delete_update_not_found_returns_undefined:
  "(queryWithRetry pool ''SELECT * FROM users WHERE id = $1'' [userId] None t
        = (Inr (Some r), t') \<and> rows r = []
      \<longrightarrow> findById pool userId t = (Inr Null, t'))
   \<and> (queryWithRetry pool ''DELETE FROM users WHERE id = $1 RETURNING *'' [userId] None t
        = (Inr (Some r), t') \<and> rows r = []
      \<longrightarrow> delete pool userId t = (Inr Undefined, t'))
   \<and> (truthy userData
        \<and> (truthy (get_prop userData ''name'') \<or> truthy (get_prop userData ''email''))
        \<and> queryWithRetry pool (fst (update_query userId userData))
             (snd (update_query userId userData)) None t = (Inr (Some r), t')
        \<and> rows r = []
      \<longrightarrow> update pool userId userData t = (Inr Undefined, t'))
   \<and> Undefined \<noteq> Null"
proof (intro conjI impI)
  assume "queryWithRetry pool ''SELECT * FROM users WHERE id = $1'' [userId] None t
        = (Inr (Some r), t') \<and> rows r = []"
  then show "findById pool userId t = (Inr Null, t')"
    by (simp add: findById_def query_rows_return catch_log_return first_row_def js_or_def)
next
  assume "queryWithRetry pool ''DELETE FROM users WHERE id = $1 RETURNING *'' [userId] None t
        = (Inr (Some r), t') \<and> rows r = []"
  then show "delete pool userId t = (Inr Undefined, t')"
    by (simp add: delete_def query_rows_return catch_log_return first_row_def)
next
  assume a: "truthy userData
        \<and> (truthy (get_prop userData ''name'') \<or> truthy (get_prop userData ''email''))
        \<and> queryWithRetry pool (fst (update_query userId userData))
             (snd (update_query userId userData)) None t = (Inr (Some r), t')
        \<and> rows r = []"
  then have "update pool userId userData t =
       catch_log ''Error updating user:''
         (query_rows pool (fst (update_query userId userData))
            (snd (update_query userId userData)) first_row t)"
    by (intro update_valid) simp_all
  with a show "update pool userId userData t = (Inr Undefined, t')"
    by (simp add: query_rows_return catch_log_return first_row_def)
next
  show "Undefined \<noteq> Null" by simp
qed

text \<open>
  The failing input: a store in which no row has the id \<^verbatim>\<open>'7'\<close>. There
  \<^verbatim>\<open>findById('7')\<close> returns \<^verbatim>\<open>null\<close>, while \<^verbatim>\<open>delete('7')\<close> and
  \<^verbatim>\<open>update('7', {name: 'A'})\<close> return \<^verbatim>\<open>undefined\<close>.
\<close>

theorem delete_update_not_found_returns_undefined_witness:
  "findById pool_empty (Str ''7'') []
     = (Inr Null, [Query ''SELECT * FROM users WHERE id = $1'' [Str ''7'']])
   \<and> delete pool_empty (Str ''7'') []
     = (Inr Undefined, [Query ''DELETE FROM users WHERE id = $1 RETURNING *'' [Str ''7'']])
   \<and> update pool_empty (Str ''7'') (Obj [(''name'', Str ''A'')]) []
     = (Inr Undefined,
        [Query ''UPDATE users SET name = $1 WHERE id = $2 RETURNING *'' [Str ''A'', Str ''7'']])
   \<and> fst (delete pool_empty (Str ''7'') []) \<noteq> Inr Null
   \<and> fst (update pool_empty (Str ''7'') (Obj [(''name'', Str ''A'')]) []) \<noteq> Inr Null"
proof -
  have q: "\<And>q ps. queryWithRetry pool_empty q ps None [] = (Inr (Some \<lparr>rows = []\<rparr>), [Query q ps])"
    by (rule default_first [where t = "[]", simplified]) (simp add: pool_empty_def)
  have uq: "update_query (Str ''7'') (Obj [(''name'', Str ''A'')]) =
      (''UPDATE users SET name = $1 WHERE id = $2 RETURNING *'', [Str ''A'', Str ''7''])"
    by (simp add: update_query_name_only)
  show ?thesis
    using delete_update_not_found_returns_undefined [of pool_empty "Str ''7''" "[]" "\<lparr>rows = []\<rparr>"
        "[Query ''SELECT * FROM users WHERE id = $1'' [Str ''7'']]"
        "Obj [(''name'', Str ''A'')]"]
      delete_update_not_found_returns_undefined [of pool_empty "Str ''7''" "[]" "\<lparr>rows = []\<rparr>"
        "[Query ''DELETE FROM users WHERE id = $1 RETURNING *'' [Str ''7'']]"
        "Obj [(''name'', Str ''A'')]"]
      delete_update_not_found_returns_undefined [of pool_empty "Str ''7''" "[]" "\<lparr>rows = []\<rparr>"
        "[Query ''UPDATE users SET name = $1 WHERE id = $2 RETURNING *'' [Str ''A'', Str ''7'']]"
        "Obj [(''name'', Str ''A'')]"]
    by (simp add: q uq)
qed

section \<open>The update builder\<close>

lemma update_first_event:
  assumes "truthy userData"
    and "truthy (get_prop userData ''name'') \<or> truthy (get_prop userData ''email'')"
  shows "take (Suc (length t)) (snd (update pool userId userData t)) =
     t @ [Query (fst (update_query userId userData)) (snd (update_query userId userData))]"
proof -
  let ?q = "fst (update_query userId userData)" and ?ps = "snd (update_query userId userData)"
  have "take (Suc (length t)) (snd (update pool userId userData t)) =
      take (Suc (length t)) (snd (query_rows pool ?q ?ps first_row t))"
    by (simp only: update_valid [OF assms])
      (rule take_catch_log, simp only: query_rows_trace default_trace_length)
  also have "\<dots> = t @ [Query ?q ?ps]"
    by (simp only: query_rows_trace default_first_event)
  finally show ?thesis .
qed

lemma truthy_defined: "truthy v \<Longrightarrow> v \<noteq> Undefined"
  by auto

text \<open>
  C2. For data that passes the validation of \<^verbatim>\<open>update\<close>, let the supplied
  columns be those among \<^verbatim>\<open>name\<close>, \<^verbatim>\<open>email\<close>, in this order, whose field is
  not \<^verbatim>\<open>undefined\<close>. The SET clause has one assignment per supplied column, in
  that order, numbered \<^verbatim>\<open>$1\<close>, \<^verbatim>\<open>$2\<close> with no gap; the placeholder of the
  WHERE clause is the number of assignments plus one; the parameters are the supplied
  values in the same order followed by the id as last element. There is at least one
  assignment, and the first event of \<^verbatim>\<open>update\<close> is the call of the pool with this
  statement and these parameters.
\<close>

theorem update_builder_placeholders:
  assumes "truthy userData"
    and "truthy (get_prop userData ''name'') \<or> truthy (get_prop userData ''email'')"
  shows "update_parts userId userData =
           (map (\<lambda>(i, c). c @ '' = $'' @ string_of_nat i) (enumerate 1 (supplied userData)),
            map (get_prop userData) (supplied userData) @ [userId],
            length (supplied userData) + 1)
         \<and> update_query userId userData =
           (''UPDATE users SET ''
              @ join '', '' (map (\<lambda>(i, c). c @ '' = $'' @ string_of_nat i)
                               (enumerate 1 (supplied userData)))
              @ '' WHERE id = $'' @ string_of_nat (length (supplied userData) + 1)
              @ '' RETURNING *'',
            map (get_prop userData) (supplied userData) @ [userId])
         \<and> supplied userData \<noteq> []
         \<and> take (Suc (length t)) (snd (update pool userId userData t)) =
           t @ [Query (fst (update_query userId userData)) (snd (update_query userId userData))]"
proof -
  have parts: "update_parts userId userData =
           (map (\<lambda>(i, c). c @ '' = $'' @ string_of_nat i) (enumerate 1 (supplied userData)),
            map (get_prop userData) (supplied userData) @ [userId],
            length (supplied userData) + 1)"
    by (simp add: update_parts_def supplied_def)
  have query: "update_query userId userData =
           (''UPDATE users SET ''
              @ join '', '' (map (\<lambda>(i, c). c @ '' = $'' @ string_of_nat i)
                               (enumerate 1 (supplied userData)))
              @ '' WHERE id = $'' @ string_of_nat (length (supplied userData) + 1)
              @ '' RETURNING *'',
            map (get_prop userData) (supplied userData) @ [userId])"
    by (simp only: update_query_def parts prod.case)
  have nonempty: "supplied userData \<noteq> []"
    using assms(2) by (auto simp: supplied_def dest: truthy_defined)
  from parts query nonempty update_first_event [OF assms] show ?thesis
    by (intro conjI)
qed

theorem update_builder_placeholders_witness:
  "update_parts (Str ''7'') (Obj [(''name'', Str ''A''), (''email'', Str ''b@x.com'')])
     = ([''name = $1'', ''email = $2''], [Str ''A'', Str ''b@x.com'', Str ''7''], 3)
   \<and> update_query (Str ''7'') (Obj [(''name'', Str ''A''), (''email'', Str ''b@x.com'')])
     = (''UPDATE users SET name = $1, email = $2 WHERE id = $3 RETURNING *'',
        [Str ''A'', Str ''b@x.com'', Str ''7''])
   \<and> update_parts (Str ''7'') (Obj [(''name'', Str ''A'')])
     = ([''name = $1''], [Str ''A'', Str ''7''], 2)
   \<and> update_query (Str ''7'') (Obj [(''name'', Str ''A'')])
     = (''UPDATE users SET name = $1 WHERE id = $2 RETURNING *'', [Str ''A'', Str ''7''])
   \<and> take 1 (snd (update pool_empty (Str ''7'') (Obj [(''name'', Str ''A'')]) []))
     = [Query ''UPDATE users SET name = $1 WHERE id = $2 RETURNING *'' [Str ''A'', Str ''7'']]"
proof -
  have s2: "supplied (Obj [(''name'', Str ''A''), (''email'', Str ''b@x.com'')])
      = [''name'', ''email'']"
    by (simp add: supplied_def)
  have s1: "supplied (Obj [(''name'', Str ''A'')]) = [''name'']"
    by (simp add: supplied_def)
  show ?thesis
    using update_builder_placeholders
        [of "Obj [(''name'', Str ''A''), (''email'', Str ''b@x.com'')]" "Str ''7''" "[]" pool_empty]
      update_builder_placeholders [of "Obj [(''name'', Str ''A'')]" "Str ''7''" "[]" pool_empty]
    by (simp add: s1 s2 string_of_nat_small)
qed

section \<open>Validation and inclusion disagree\<close>

text \<open>
  C10. Validation tests truthiness while the builder tests \<^verbatim>\<open>!== undefined\<close>.
  So when \<^verbatim>\<open>email\<close> is truthy and \<^verbatim>\<open>name\<close> is defined but falsy
  (\<^verbatim>\<open>null\<close>, the empty string), and likewise with the two fields exchanged,
  \<^verbatim>\<open>update\<close> throws no validation error and calls the store with a statement
  that assigns both columns, the falsy value being among the parameters.
\<close>

theorem update_writes_falsy_field:
  "(truthy (get_prop userData ''email'')
      \<and> get_prop userData ''name'' \<noteq> Undefined \<and> \<not> truthy (get_prop userData ''name'')
    \<or> truthy (get_prop userData ''name'')
      \<and> get_prop userData ''email'' \<noteq> Undefined \<and> \<not> truthy (get_prop userData ''email''))
   \<longrightarrow> (\<forall>msg. fst (update pool userId userData t) \<noteq> Inl (Error msg))
     \<and> take (Suc (length t)) (snd (update pool userId userData t)) =
         t @ [Query ''UPDATE users SET name = $1, email = $2 WHERE id = $3 RETURNING *''
                [get_prop userData ''name'', get_prop userData ''email'', userId]]"
proof (intro impI)
  assume a: "truthy (get_prop userData ''email'')
      \<and> get_prop userData ''name'' \<noteq> Undefined \<and> \<not> truthy (get_prop userData ''name'')
    \<or> truthy (get_prop userData ''name'')
      \<and> get_prop userData ''email'' \<noteq> Undefined \<and> \<not> truthy (get_prop userData ''email'')"
  then have one: "truthy (get_prop userData ''name'') \<or> truthy (get_prop userData ''email'')"
    by blast
  then have data: "truthy userData"
    by (auto dest: truthy_get_prop)
  from a have both: "get_prop userData ''name'' \<noteq> Undefined"
      "get_prop userData ''email'' \<noteq> Undefined"
    by (auto dest: truthy_defined)
  have "update pool userId userData t =
       catch_log ''Error updating user:''
         (query_rows pool (fst (update_query userId userData))
            (snd (update_query userId userData)) first_row t)"
    using data one by (rule update_valid)
  then have "\<forall>msg. fst (update pool userId userData t) \<noteq> Inl (Error msg)"
    by (simp add: fst_catch_log query_rows_not_Error)
  moreover have "take (Suc (length t)) (snd (update pool userId userData t)) =
         t @ [Query ''UPDATE users SET name = $1, email = $2 WHERE id = $3 RETURNING *''
                [get_prop userData ''name'', get_prop userData ''email'', userId]]"
    using update_first_event [OF data one, of t pool userId]
    by (simp add: update_query_both [OF both])
  ultimately show "(\<forall>msg. fst (update pool userId userData t) \<noteq> Inl (Error msg))
     \<and> take (Suc (length t)) (snd (update pool userId userData t)) =
         t @ [Query ''UPDATE users SET name = $1, email = $2 WHERE id = $3 RETURNING *''
                [get_prop userData ''name'', get_prop userData ''email'', userId]]"
    by (rule conjI)
qed

theorem update_writes_falsy_field_witness:
  "update pool_flaky (Str ''7'') (Obj [(''name'', Str ''''), (''email'', Str ''b@x.com'')]) [] =
     (Inr (Obj alice),
      [Query ''UPDATE users SET name = $1, email = $2 WHERE id = $3 RETURNING *''
         [Str '''', Str ''b@x.com'', Str ''7''], Timeout 1000,
       Query ''UPDATE users SET name = $1, email = $2 WHERE id = $3 RETURNING *''
         [Str '''', Str ''b@x.com'', Str ''7''], Timeout 2000,
       Query ''UPDATE users SET name = $1, email = $2 WHERE id = $3 RETURNING *''
         [Str '''', Str ''b@x.com'', Str ''7'']])
   \<and> take 1 (snd (update pool_empty (Str ''7'') (Obj [(''name'', Null), (''email'', Str ''b@x.com'')]) []))
     = [Query ''UPDATE users SET name = $1, email = $2 WHERE id = $3 RETURNING *''
          [Null, Str ''b@x.com'', Str ''7'']]
   \<and> take 1 (snd (update pool_empty (Str ''7'') (Obj [(''name'', Str ''A''), (''email'', Str '''')]) []))
     = [Query ''UPDATE users SET name = $1, email = $2 WHERE id = $3 RETURNING *''
          [Str ''A'', Str '''', Str ''7'']]"
proof -
  let ?d = "Obj [(''name'', Str ''''), (''email'', Str ''b@x.com'')]"
  have uq: "update_query (Str ''7'') ?d =
      (''UPDATE users SET name = $1, email = $2 WHERE id = $3 RETURNING *'',
       [Str '''', Str ''b@x.com'', Str ''7''])"
    by (simp add: update_query_both)
  have "update pool_flaky (Str ''7'') ?d [] =
       catch_log ''Error updating user:''
         (query_rows pool_flaky (fst (update_query (Str ''7'') ?d))
            (snd (update_query (Str ''7'') ?d)) first_row [])"
    by (rule update_valid) simp_all
  also have "\<dots> = (Inr (Obj alice),
      [Query ''UPDATE users SET name = $1, email = $2 WHERE id = $3 RETURNING *''
         [Str '''', Str ''b@x.com'', Str ''7''], Timeout 1000,
       Query ''UPDATE users SET name = $1, email = $2 WHERE id = $3 RETURNING *''
         [Str '''', Str ''b@x.com'', Str ''7''], Timeout 2000,
       Query ''UPDATE users SET name = $1, email = $2 WHERE id = $3 RETURNING *''
         [Str '''', Str ''b@x.com'', Str ''7'']])"
    using default_third [of pool_flaky "[]"
        "''UPDATE users SET name = $1, email = $2 WHERE id = $3 RETURNING *''"
        "[Str '''', Str ''b@x.com'', Str ''7'']" "''ETIMEDOUT''" "''ETIMEDOUT''" "\<lparr>rows = [alice]\<rparr>"]
    by (simp add: uq pool_flaky_def query_rows_return catch_log_return first_row_def)
  finally have run: "update pool_flaky (Str ''7'') ?d [] = (Inr (Obj alice),
      [Query ''UPDATE users SET name = $1, email = $2 WHERE id = $3 RETURNING *''
         [Str '''', Str ''b@x.com'', Str ''7''], Timeout 1000,
       Query ''UPDATE users SET name = $1, email = $2 WHERE id = $3 RETURNING *''
         [Str '''', Str ''b@x.com'', Str ''7''], Timeout 2000,
       Query ''UPDATE users SET name = $1, email = $2 WHERE id = $3 RETURNING *''
         [Str '''', Str ''b@x.com'', Str ''7'']])" .
  show ?thesis
    using update_writes_falsy_field
        [of "Obj [(''name'', Null), (''email'', Str ''b@x.com'')]" pool_empty "Str ''7''" "[]"]
      update_writes_falsy_field
        [of "Obj [(''name'', Str ''A''), (''email'', Str '''')]" pool_empty "Str ''7''" "[]"]
      update_writes_falsy_field [of ?d pool_flaky "Str ''7''" "[]"]
    by (simp add: run)
qed

end
